theory Spec2Isabelle
  imports Main "HOL-Library.Word"
begin

section \<open>Port forwarding to a pod: \<^verbatim>\<open>fission/portforward/portforward.go\<close>\<close>

text \<open>
  The package talks to the operating system (sockets, sleeping), to the Kubernetes API
  and to the port-forwarding transport. None of these is part of the package, so each
  of them is a field of the record \<open>env\<close> below: the answer the outside world gives to
  a call. The code of the package is translated as functions over \<open>env\<close> that thread
  a state \<open>st\<close> holding the calls made so far, in order.
\<close>

subsection \<open>Values of the Go standard library and of the Kubernetes client\<close>

text \<open>A Go \<^verbatim>\<open>error\<close> value; \<open>Error\<close> is its method \<^verbatim>\<open>Error()\<close>.\<close>

datatype error = Err (Error: string)

text \<open>
  Modelled from the spec: \<^verbatim>\<open>log.Fatal\<close> belongs to the package \<^verbatim>\<open>fission/log\<close>, which
  is not among the sources. By the specification every error condition terminates the
  process with a descriptive message, so a function that reaches \<^verbatim>\<open>log.Fatal(msg)\<close>
  yields \<open>Inl (Fatal msg)\<close> and does nothing afterwards. \<^verbatim>\<open>log.Verbose\<close> and
  \<^verbatim>\<open>log.Verbosity\<close> belong to the same package: the first only prints and is left out,
  the second is a field of \<open>env\<close>.
\<close>

datatype fatal = Fatal string

text \<open>\<^verbatim>\<open>strconv.Itoa\<close>: the decimal digits of an integer, with a minus sign when negative.\<close>

fun digits :: "nat \<Rightarrow> string" where
  "digits n =
     (if n < 10 then [''0123456789'' ! n]
      else digits (n div 10) @ [''0123456789'' ! (n mod 10)])"

declare digits.simps [simp del]

definition Itoa :: "int \<Rightarrow> string" where
  "Itoa i = (if i < 0 then CHR ''-'' # digits (nat (- i)) else digits (nat i))"

text \<open>\<^verbatim>\<open>strings.Join(elems, sep)\<close>.\<close>

fun Join :: "string list \<Rightarrow> string \<Rightarrow> string" where
  "Join [] sep = []"
| "Join [x] sep = x"
| "Join (x # y # ys) sep = x @ sep @ Join (y # ys) sep"

text \<open>
  \<^verbatim>\<open>net.JoinHostPort(host, port)\<close>: a host that holds a colon or a percent sign is put
  in square brackets.
\<close>

definition JoinHostPort :: "string \<Rightarrow> string \<Rightarrow> string" where
  "JoinHostPort host port =
     (if CHR '':'' \<in> set host \<or> CHR ''%'' \<in> set host then ''['' @ host @ '']:'' @ port
      else host @ '':'' @ port)"

text \<open>\<^verbatim>\<open>meta_v1.NamespaceAll\<close>: the namespace argument that selects every namespace.\<close>

definition NamespaceAll :: string where
  "NamespaceAll = ''''"

text \<open>
  \<^verbatim>\<open>intstr.IntOrString\<close>, the type of a service port's target port: a 32-bit integer or
  a name. Its method \<^verbatim>\<open>String()\<close> gives the name, or the integer in decimal.
\<close>

datatype IntOrString = FromInt "32 word" | FromString string

fun String :: "IntOrString \<Rightarrow> string" where
  "String (FromString s) = s"
| "String (FromInt i) = Itoa (sint i)"

record ServicePort =
  TargetPort :: IntOrString

record Service =
  Ports :: "ServicePort list"

record Pod =
  Name :: string
  Namespace :: string

text \<open>The request URL built by the REST client for a sub-resource of a named object.\<close>

record request =
  Resource :: string
  ReqNamespace :: string
  ReqName :: string
  SubResource :: string

subsection \<open>The calls made, and the answers of the outside world\<close>

datatype event =
    EvListen string string
  | EvListenerClose
  | EvDialTimeout string string nat
  | EvConnClose
  | EvSleep nat
  | EvGo string string string string
  | EvBuildConfigFromFlags string string
  | EvNewForConfig
  | EvPodsList string string
  | EvServicesList string string
  | EvRoundTripperFor
  | EvNewDialer string request
  | EvPortforwardNew "string list" bool
  | EvForwardPorts

text \<open>
  \<open>Listen\<close> answers \<^verbatim>\<open>net.Listen(network, address)\<close> with an error or with the port of
  the listener's address. \<open>DialTimeout k network address\<close> tells whether the \<open>k\<close>-th
  call of \<^verbatim>\<open>net.DialTimeout\<close> of the process returns a connection: whatever other
  tasks and other processes do to the port shows here. Durations are in milliseconds.
  The configuration and the client set are opaque values of types \<open>'cfg\<close> and \<open>'cs\<close>.
\<close>

record ('cfg, 'cs) env =
  Listen :: "string \<Rightarrow> string \<Rightarrow> error + int"
  ListenerClose :: "error option"
  DialTimeout :: "nat \<Rightarrow> string \<Rightarrow> string \<Rightarrow> bool"
  BuildConfigFromFlags :: "string \<Rightarrow> string \<Rightarrow> error + 'cfg"
  NewForConfig :: "'cfg \<Rightarrow> error + 'cs"
  PodsList :: "'cs \<Rightarrow> string \<Rightarrow> string \<Rightarrow> error + Pod list"
  ServicesList :: "'cs \<Rightarrow> string \<Rightarrow> string \<Rightarrow> error + Service list"
  RoundTripperFor :: "'cfg \<Rightarrow> error option"
  PortforwardNew :: "request \<Rightarrow> string list \<Rightarrow> error option"
  ForwardPorts :: "request \<Rightarrow> string list \<Rightarrow> error option"
  Verbosity :: int

record st =
  ndials :: nat
  trace :: "event list"

definition emit :: "event \<Rightarrow> st \<Rightarrow> st" where
  "emit ev s = s\<lparr>trace := trace s @ [ev]\<rparr>"

subsection \<open>\<^verbatim>\<open>findFreePort\<close>\<close>

text \<open>
  The result is the pair the Go function returns: the port string and the error
  (\<open>None\<close> for \<^verbatim>\<open>nil\<close>).
\<close>

definition findFreePort :: "('cfg, 'cs) env \<Rightarrow> st \<Rightarrow> (string \<times> error option) \<times> st" where
  "findFreePort e s =
     (let s1 = emit (EvListen ''tcp'' '':0'') s in
      case Listen e ''tcp'' '':0'' of
        Inl err \<Rightarrow> (('''', Some err), s1)
      | Inr listenerPort \<Rightarrow>
          (let port = Itoa listenerPort;
               s2 = emit EvListenerClose s1 in
           case ListenerClose e of
             Some err \<Rightarrow> (('''', Some err), s2)
           | None \<Rightarrow> ((port, None), s2)))"

subsection \<open>The two polling loops of \<^verbatim>\<open>Setup\<close>\<close>

text \<open>
  Neither loop has a bound, so each is a partial function: \<open>None\<close> means that the loop
  never ends. The first loop (lines 52 to 61) leaves when the dial gives no connection;
  the second (lines 72 to 80) leaves when it gives one.
\<close>

partial_function (option) waitPortFree :: "('cfg, 'cs) env \<Rightarrow> string \<Rightarrow> st \<Rightarrow> st option" where
  "waitPortFree e localPort s =
     (let conn = DialTimeout e (ndials s) ''tcp'' (JoinHostPort '''' localPort);
          s1 = emit (EvDialTimeout ''tcp'' (JoinHostPort '''' localPort) 1)
                 (s\<lparr>ndials := Suc (ndials s)\<rparr>) in
      if conn then waitPortFree e localPort (emit (EvSleep 50) (emit EvConnClose s1))
      else Some s1)"

partial_function (option) waitPortListening :: "('cfg, 'cs) env \<Rightarrow> string \<Rightarrow> st \<Rightarrow> st option" where
  "waitPortListening e localPort s =
     (let conn = DialTimeout e (ndials s) ''tcp'' (JoinHostPort '''' localPort);
          s1 = emit (EvDialTimeout ''tcp'' (JoinHostPort '''' localPort) 1)
                 (s\<lparr>ndials := Suc (ndials s)\<rparr>) in
      if conn then Some (emit EvConnClose s1)
      else waitPortListening e localPort (emit (EvSleep 50) s1))"

declare waitPortFree.simps [code]
declare waitPortListening.simps [code]

subsection \<open>\<^verbatim>\<open>Setup\<close>\<close>

text \<open>
  \<open>Setup\<close> is the calling task alone. Starting the background task is the event
  \<open>EvGo\<close> with the arguments handed to \<^verbatim>\<open>runPortForward\<close>; what that task does is
  \<open>Setup_go\<close> below, and its effect on the local port reaches \<open>Setup\<close> through the
  answers of \<open>DialTimeout\<close>. The result is \<open>None\<close> when \<open>Setup\<close> never returns,
  \<open>Inl\<close> when it ends the process and \<open>Inr\<close> with the returned string otherwise.
\<close>

definition Setup ::
  "('cfg, 'cs) env \<Rightarrow> string \<Rightarrow> string \<Rightarrow> string \<Rightarrow> st \<Rightarrow> ((fatal + string) \<times> st) option" where
  "Setup e kubeConfig namespace labelSelector s =
     (case findFreePort e s of
        ((localPort, Some err), s1) \<Rightarrow>
          Some (Inl (Fatal (''Error finding unused port :'' @ Error err)), s1)
      | ((localPort, None), s1) \<Rightarrow>
          (case waitPortFree e localPort s1 of
             None \<Rightarrow> None
           | Some s2 \<Rightarrow>
               (let s3 = emit (EvGo kubeConfig labelSelector localPort namespace) s2 in
                case waitPortListening e localPort s3 of
                  None \<Rightarrow> None
                | Some s4 \<Rightarrow> Some (Inr localPort, s4))))"

subsection \<open>\<^verbatim>\<open>runPortForward\<close>\<close>

text \<open>The loop of lines 132 to 134, appending each pod's namespace.\<close>

definition namespaces_of :: "Pod list \<Rightarrow> string list" where
  "namespaces_of Items = foldl (\<lambda>namespaces p. namespaces @ [Namespace p]) [] Items"

text \<open>The loop of lines 154 to 157: the variable starts empty and every port assigns it.\<close>

definition targetPort_of :: "Service \<Rightarrow> string" where
  "targetPort_of service =
     foldl (\<lambda>targetPort servicePort. String (TargetPort servicePort)) '''' (Ports service)"

text \<open>
  The result is \<open>Inl\<close> when the function ends the process, and otherwise \<open>Inr\<close> with
  the error that \<^verbatim>\<open>ForwardPorts\<close> returned.
\<close>

definition runPortForward ::
  "('cfg, 'cs) env \<Rightarrow> string \<Rightarrow> string \<Rightarrow> string \<Rightarrow> string \<Rightarrow> event list
     \<Rightarrow> (fatal + error option) \<times> event list" where
  "runPortForward e kubeConfig labelSelector localPort ns0 t0 =
     (let t1 = t0 @ [EvBuildConfigFromFlags '''' kubeConfig] in
      case BuildConfigFromFlags e '''' kubeConfig of
        Inl err \<Rightarrow> (Inl (Fatal (''Failed to connect to Kubernetes: '' @ Error err)), t1)
      | Inr config \<Rightarrow>
     (let t2 = t1 @ [EvNewForConfig] in
      case NewForConfig e config of
        Inl err \<Rightarrow> (Inl (Fatal (''Failed to connect to Kubernetes: '' @ Error err)), t2)
      | Inr clientset \<Rightarrow>
     (let ns = (if length ns0 = 0 then NamespaceAll else ns0);
          t3 = t2 @ [EvPodsList ns labelSelector] in
      case PodsList e clientset ns labelSelector of
        Inl err \<Rightarrow> (Inl (Fatal ''Error getting controller pod for port-forwarding''), t3)
      | Inr Items \<Rightarrow>
          if length Items = 0
          then (Inl (Fatal ''Error getting controller pod for port-forwarding''), t3)
          else if length Items > 1
          then (Inl (Fatal (''Found '' @ Itoa (int (length Items))
                  @ '' fission installs, set FISSION_NAMESPACE to one of: ''
                  @ Join (namespaces_of Items) '' '')), t3)
          else
     (let podName = Name (Items ! 0);
          podNameSpace = Namespace (Items ! 0);
          t4 = t3 @ [EvServicesList podNameSpace labelSelector] in
      case ServicesList e clientset podNameSpace labelSelector of
        Inl err \<Rightarrow>
          (Inl (Fatal (''Error getting '' @ labelSelector @ '' service :'' @ Error err)), t4)
      | Inr svcs \<Rightarrow>
          if length svcs = 0
          then (Inl (Fatal (''Service '' @ labelSelector @ '' not found'')), t4)
          else
     (let service = svcs ! 0;
          targetPort = targetPort_of service;
          url = \<lparr>Resource = ''pods'', ReqNamespace = podNameSpace, ReqName = podName,
                 SubResource = ''portforward''\<rparr>;
          portCombo = localPort @ '':'' @ targetPort;
          ports = [portCombo];
          t5 = t4 @ [EvRoundTripperFor] in
      case RoundTripperFor e config of
        Some err \<Rightarrow>
          (Inl (Fatal (''Failed to connect to Fission service on Kubernetes: '' @ Error err)), t5)
      | None \<Rightarrow>
     (let t6 = t5 @ [EvNewDialer ''POST'' url];
          outStream = (\<not> Verbosity e < 2);
          t7 = t6 @ [EvPortforwardNew ports outStream] in
      case PortforwardNew e url ports of
        Some err \<Rightarrow> (Inl (Fatal (''portforward.new errored out :'' @ Error err)), t7)
      | None \<Rightarrow> (Inr (ForwardPorts e url ports), t7 @ [EvForwardPorts])))))))"

text \<open>The task started by \<open>Setup\<close> (lines 64 to 69).\<close>

definition Setup_go ::
  "('cfg, 'cs) env \<Rightarrow> string \<Rightarrow> string \<Rightarrow> string \<Rightarrow> string \<Rightarrow> event list
     \<Rightarrow> (fatal + unit) \<times> event list" where
  "Setup_go e kubeConfig labelSelector localPort namespace t0 =
     (case runPortForward e kubeConfig labelSelector localPort namespace t0 of
        (Inl f, t) \<Rightarrow> (Inl f, t)
      | (Inr (Some err), t) \<Rightarrow>
          (Inl (Fatal (''Error forwarding to controller port: '' @ Error err)), t)
      | (Inr None, t) \<Rightarrow> (Inr (), t))"

subsection \<open>Vocabulary for the statements\<close>

text \<open>The dial both loops make, and the answer to the \<open>k\<close>-th dial of the process.\<close>

definition dialEv :: "string \<Rightarrow> event" where
  "dialEv localPort = EvDialTimeout ''tcp'' (JoinHostPort '''' localPort) 1"

definition dialOk :: "('cfg, 'cs) env \<Rightarrow> string \<Rightarrow> nat \<Rightarrow> bool" where
  "dialOk e localPort k = DialTimeout e k ''tcp'' (JoinHostPort '''' localPort)"

text \<open>
  A mocked outside world for the examples: the listener gets port 40123, every call
  succeeds, the cluster holds the given pods and services, and \<open>dial\<close> answers the dials.
\<close>

definition mock_env :: "Pod list \<Rightarrow> Service list \<Rightarrow> (nat \<Rightarrow> bool) \<Rightarrow> (unit, unit) env" where
  "mock_env pods svcs dial =
     \<lparr>Listen = (\<lambda>network address. Inr 40123),
      ListenerClose = None,
      DialTimeout = (\<lambda>k network address. dial k),
      BuildConfigFromFlags = (\<lambda>masterUrl path. Inr ()),
      NewForConfig = (\<lambda>config. Inr ()),
      PodsList = (\<lambda>clientset ns sel.
        Inr (filter (\<lambda>p. ns = NamespaceAll \<or> Namespace p = ns) pods)),
      ServicesList = (\<lambda>clientset ns sel. Inr svcs),
      RoundTripperFor = (\<lambda>config. None),
      PortforwardNew = (\<lambda>url ports. None),
      ForwardPorts = (\<lambda>url ports. None),
      Verbosity = 0\<rparr>"

definition s0 :: st where
  "s0 = \<lparr>ndials = 0, trace = []\<rparr>"

section \<open>Properties\<close>

subsection \<open>Decimal strings\<close>

lemma digits_8080: "digits 8080 = ''8080''"
  by (simp add: digits.simps)

lemma Itoa_neg: "Itoa (- 12) = ''-12''"
  by (simp add: Itoa_def digits.simps)

lemma String_8080: "String (FromInt 8080) = ''8080''"
  by (simp add: Itoa_def digits.simps)

subsection \<open>The polling loops\<close>

lemma waitPortFree_step_ok:
  "dialOk e lp (ndials s) \<Longrightarrow>
   waitPortFree e lp s =
     waitPortFree e lp (s\<lparr>ndials := Suc (ndials s), trace := trace s @ [dialEv lp, EvConnClose, EvSleep 50]\<rparr>)"
  by (subst waitPortFree.simps) (simp add: dialOk_def dialEv_def emit_def)

lemma waitPortFree_step_fail:
  "\<not> dialOk e lp (ndials s) \<Longrightarrow>
   waitPortFree e lp s = Some (s\<lparr>ndials := Suc (ndials s), trace := trace s @ [dialEv lp]\<rparr>)"
  by (subst waitPortFree.simps) (simp add: dialOk_def dialEv_def emit_def)

lemma waitPortFree_exit:
  "\<forall>j<k. dialOk e lp (ndials s + j) \<Longrightarrow> \<not> dialOk e lp (ndials s + k) \<Longrightarrow>
   waitPortFree e lp s =
     Some (s\<lparr>ndials := ndials s + k + 1,
           trace := trace s @ concat (replicate k [dialEv lp, EvConnClose, EvSleep 50]) @ [dialEv lp]\<rparr>)"
proof (induction k arbitrary: s)
  case 0
  then show ?case by (simp add: waitPortFree_step_fail)
next
  case (Suc k)
  let ?s = "s\<lparr>ndials := Suc (ndials s), trace := trace s @ [dialEv lp, EvConnClose, EvSleep 50]\<rparr>"
  from Suc.prems(1) have now: "dialOk e lp (ndials s)"
    by (metis add.right_neutral zero_less_Suc)
  have later: "\<forall>j<k. dialOk e lp (ndials ?s + j)"
    using Suc.prems(1) by auto
  have stop: "\<not> dialOk e lp (ndials ?s + k)"
    using Suc.prems(2) by simp
  show ?case
    using Suc.IH [OF later stop] now by (simp add: waitPortFree_step_ok)
qed

lemma waitPortFree_Some_fails:
  assumes "waitPortFree e lp s = Some s'"
  shows "\<exists>j. \<not> dialOk e lp (ndials s + j)"
proof (rule waitPortFree.raw_induct
    [where P = "\<lambda>e lp s s'. \<exists>j. \<not> dialOk e lp (ndials s + j)", OF _ assms])
  fix f and e :: "('a, 'b) env" and lp s s'
  assume IH: "\<And>e lp s s'. f e lp s = Some s' \<Longrightarrow> \<exists>j. \<not> dialOk e lp (ndials s + j)"
    and step: "(let conn = DialTimeout e (ndials s) ''tcp'' (JoinHostPort [] lp);
                    s1 = emit (EvDialTimeout ''tcp'' (JoinHostPort [] lp) 1)
                           (s\<lparr>ndials := Suc (ndials s)\<rparr>)
                in if conn then f e lp (emit (EvSleep 50) (emit EvConnClose s1)) else Some s1)
               = Some s'"
  show "\<exists>j. \<not> dialOk e lp (ndials s + j)"
  proof (cases "dialOk e lp (ndials s)")
    case True
    with step have "f e lp (emit (EvSleep 50) (emit EvConnClose (emit (dialEv lp) (s\<lparr>ndials := Suc (ndials s)\<rparr>)))) = Some s'"
      by (simp add: dialOk_def dialEv_def)
    from IH [OF this] obtain j where "\<not> dialOk e lp (Suc (ndials s) + j)"
      by (auto simp: emit_def)
    then have "\<not> dialOk e lp (ndials s + Suc j)" by simp
    then show ?thesis by blast
  next
    case False
    then have "\<not> dialOk e lp (ndials s + 0)" by simp
    then show ?thesis by blast
  qed
qed

lemma waitPortFree_blocks:
  "\<forall>j. dialOk e lp (ndials s + j) \<Longrightarrow> waitPortFree e lp s = None"
  using waitPortFree_Some_fails [of e lp s] by (cases "waitPortFree e lp s") auto

lemma waitPortFree_SomeD:
  assumes "waitPortFree e lp s = Some s'"
  shows "\<exists>k. (\<forall>j<k. dialOk e lp (ndials s + j)) \<and> \<not> dialOk e lp (ndials s + k)
           \<and> s' = s\<lparr>ndials := ndials s + k + 1,
                    trace := trace s @ concat (replicate k [dialEv lp, EvConnClose, EvSleep 50]) @ [dialEv lp]\<rparr>"
proof -
  from waitPortFree_Some_fails [OF assms] obtain j0 where j0: "\<not> dialOk e lp (ndials s + j0)" ..
  define k where "k = (LEAST j. \<not> dialOk e lp (ndials s + j))"
  have stop: "\<not> dialOk e lp (ndials s + k)"
    unfolding k_def using j0 by (rule LeastI)
  have before: "\<forall>j<k. dialOk e lp (ndials s + j)"
    unfolding k_def using not_less_Least by blast
  from waitPortFree_exit [OF before stop] assms show ?thesis
    using before stop by auto
qed

lemma waitPortListening_step_fail:
  "\<not> dialOk e lp (ndials s) \<Longrightarrow>
   waitPortListening e lp s =
     waitPortListening e lp (s\<lparr>ndials := Suc (ndials s), trace := trace s @ [dialEv lp, EvSleep 50]\<rparr>)"
  by (subst waitPortListening.simps) (simp add: dialOk_def dialEv_def emit_def)

lemma waitPortListening_step_ok:
  "dialOk e lp (ndials s) \<Longrightarrow>
   waitPortListening e lp s = Some (s\<lparr>ndials := Suc (ndials s), trace := trace s @ [dialEv lp, EvConnClose]\<rparr>)"
  by (subst waitPortListening.simps) (simp add: dialOk_def dialEv_def emit_def)

lemma waitPortListening_exit:
  "\<forall>j<k. \<not> dialOk e lp (ndials s + j) \<Longrightarrow> dialOk e lp (ndials s + k) \<Longrightarrow>
   waitPortListening e lp s =
     Some (s\<lparr>ndials := ndials s + k + 1,
           trace := trace s @ concat (replicate k [dialEv lp, EvSleep 50]) @ [dialEv lp, EvConnClose]\<rparr>)"
proof (induction k arbitrary: s)
  case 0
  then show ?case by (simp add: waitPortListening_step_ok)
next
  case (Suc k)
  let ?s = "s\<lparr>ndials := Suc (ndials s), trace := trace s @ [dialEv lp, EvSleep 50]\<rparr>"
  from Suc.prems(1) have now: "\<not> dialOk e lp (ndials s)"
    by (metis add.right_neutral zero_less_Suc)
  have later: "\<forall>j<k. \<not> dialOk e lp (ndials ?s + j)"
    using Suc.prems(1) by auto
  have stop: "dialOk e lp (ndials ?s + k)"
    using Suc.prems(2) by simp
  show ?case
    using Suc.IH [OF later stop] now by (simp add: waitPortListening_step_fail)
qed

lemma waitPortListening_Some_succeeds:
  assumes "waitPortListening e lp s = Some s'"
  shows "\<exists>j. dialOk e lp (ndials s + j)"
proof (rule waitPortListening.raw_induct
    [where P = "\<lambda>e lp s s'. \<exists>j. dialOk e lp (ndials s + j)", OF _ assms])
  fix f and e :: "('a, 'b) env" and lp s s'
  assume IH: "\<And>e lp s s'. f e lp s = Some s' \<Longrightarrow> \<exists>j. dialOk e lp (ndials s + j)"
    and step: "(let conn = DialTimeout e (ndials s) ''tcp'' (JoinHostPort [] lp);
                    s1 = emit (EvDialTimeout ''tcp'' (JoinHostPort [] lp) 1)
                           (s\<lparr>ndials := Suc (ndials s)\<rparr>)
                in if conn then Some (emit EvConnClose s1)
                   else f e lp (emit (EvSleep 50) s1))
               = Some s'"
  show "\<exists>j. dialOk e lp (ndials s + j)"
  proof (cases "dialOk e lp (ndials s)")
    case False
    with step have "f e lp (emit (EvSleep 50) (emit (dialEv lp) (s\<lparr>ndials := Suc (ndials s)\<rparr>))) = Some s'"
      by (simp add: dialOk_def dialEv_def)
    from IH [OF this] obtain j where "dialOk e lp (Suc (ndials s) + j)"
      by (auto simp: emit_def)
    then have "dialOk e lp (ndials s + Suc j)" by simp
    then show ?thesis by blast
  next
    case True
    then have "dialOk e lp (ndials s + 0)" by simp
    then show ?thesis by blast
  qed
qed

lemma waitPortListening_blocks:
  "\<forall>j. \<not> dialOk e lp (ndials s + j) \<Longrightarrow> waitPortListening e lp s = None"
  using waitPortListening_Some_succeeds [of e lp s] by (cases "waitPortListening e lp s") auto

lemma waitPortListening_SomeD:
  assumes "waitPortListening e lp s = Some s'"
  shows "\<exists>k. (\<forall>j<k. \<not> dialOk e lp (ndials s + j)) \<and> dialOk e lp (ndials s + k)
           \<and> s' = s\<lparr>ndials := ndials s + k + 1,
                    trace := trace s @ concat (replicate k [dialEv lp, EvSleep 50]) @ [dialEv lp, EvConnClose]\<rparr>"
proof -
  from waitPortListening_Some_succeeds [OF assms] obtain j0 where j0: "dialOk e lp (ndials s + j0)" ..
  define k where "k = (LEAST j. dialOk e lp (ndials s + j))"
  have stop: "dialOk e lp (ndials s + k)"
    unfolding k_def using j0 by (rule LeastI)
  have before: "\<forall>j<k. \<not> dialOk e lp (ndials s + j)"
    unfolding k_def using not_less_Least by blast
  from waitPortListening_exit [OF before stop] assms show ?thesis
    using before stop by auto
qed

subsection \<open>The free-port allocator\<close>

lemma mock_findFreePort:
  "findFreePort (mock_env pods svcs dial) s
     = ((''40123'', None), s\<lparr>trace := trace s @ [EvListen ''tcp'' '':0'', EvListenerClose]\<rparr>)"
  by (simp add: findFreePort_def mock_env_def emit_def Itoa_def digits.simps)

text \<open>
  Claim C6. Whenever \<open>findFreePort\<close> returns without an error, it has listened on
  \<open>tcp\<close> address \<open>:0\<close>, the listen call gave a listener on some port \<open>p\<close>, the
  listener was closed next, and the string returned is \<open>p\<close> in decimal: the port of the
  very listener that was bound.
\<close>

theorem findFreePort_returns_listener_port:
  assumes "findFreePort e s = ((port, None), s')"
  shows "\<exists>p. Listen e ''tcp'' '':0'' = Inr p \<and> port = Itoa p
           \<and> trace s' = trace s @ [EvListen ''tcp'' '':0'', EvListenerClose]"
  using assms
  by (auto simp: findFreePort_def emit_def Let_def split: sum.splits option.splits)

theorem findFreePort_returns_listener_port_witness:
  "findFreePort (mock_env [] [] (\<lambda>k. False)) s0
     = ((''40123'', None), s0\<lparr>trace := [EvListen ''tcp'' '':0'', EvListenerClose]\<rparr>)
   \<and> (\<exists>p. Listen (mock_env [] [] (\<lambda>k. False)) ''tcp'' '':0'' = Inr p \<and> ''40123'' = Itoa p
         \<and> trace (s0\<lparr>trace := [EvListen ''tcp'' '':0'', EvListenerClose]\<rparr>)
             = trace s0 @ [EvListen ''tcp'' '':0'', EvListenerClose])"
proof -
  have run: "findFreePort (mock_env [] [] (\<lambda>k. False)) s0
     = ((''40123'', None), s0\<lparr>trace := [EvListen ''tcp'' '':0'', EvListenerClose]\<rparr>)"
    by (simp add: mock_findFreePort s0_def)
  from findFreePort_returns_listener_port [OF run] run show ?thesis by simp
qed

text \<open>
  Claim C7, as stated, fails: the allocator also returns an error when the bind
  succeeds and closing the listener fails (lines 95 to 98). Here the listen call gives a
  listener on port 40123 and the close call gives an error, which is returned.
\<close>

theorem findFreePort_close_error_counterexample:
  "snd (fst (findFreePort (mock_env [] [] (\<lambda>k. False)\<lparr>ListenerClose := Some (Err ''close'')\<rparr>) s0))
     = Some (Err ''close'')
   \<and> Listen (mock_env [] [] (\<lambda>k. False)\<lparr>ListenerClose := Some (Err ''close'')\<rparr>) ''tcp'' '':0''
     = Inr 40123"
  by (simp add: findFreePort_def mock_env_def emit_def)

text \<open>
  Claim C7, amended. The allocator returns an error exactly when the bind fails or
  closing the listener fails; in every other case it returns the listener's port with
  no error; and it never retries: it makes one listen call, followed by at most the
  close of that listener.
\<close>

theorem findFreePort_error_iff:
  "(snd (fst (findFreePort e s)) \<noteq> None)
     = (isl (Listen e ''tcp'' '':0'') \<or> ListenerClose e \<noteq> None)
   \<and> (snd (fst (findFreePort e s)) = None \<longrightarrow>
        (\<exists>p. Listen e ''tcp'' '':0'' = Inr p \<and> fst (fst (findFreePort e s)) = Itoa p))
   \<and> (\<exists>rest. trace (snd (findFreePort e s)) = trace s @ EvListen ''tcp'' '':0'' # rest
         \<and> set rest \<subseteq> {EvListenerClose})"
  by (auto simp: findFreePort_def emit_def Let_def split: sum.splits option.splits)

theorem findFreePort_error_iff_witness:
  "snd (fst (findFreePort (mock_env [] [] (\<lambda>k. False)) s0)) = None
   \<and> fst (fst (findFreePort (mock_env [] [] (\<lambda>k. False)) s0)) = Itoa 40123
   \<and> snd (fst (findFreePort (mock_env [] [] (\<lambda>k. False)\<lparr>Listen := (\<lambda>n a. Inl (Err ''bind''))\<rparr>) s0)) \<noteq> None
   \<and> snd (fst (findFreePort (mock_env [] [] (\<lambda>k. False)\<lparr>ListenerClose := Some (Err ''close'')\<rparr>) s0)) \<noteq> None"
  using findFreePort_error_iff [of "mock_env [] [] (\<lambda>k. False)" s0]
    findFreePort_error_iff [of "mock_env [] [] (\<lambda>k. False)\<lparr>Listen := (\<lambda>n a. Inl (Err ''bind''))\<rparr>" s0]
    findFreePort_error_iff [of "mock_env [] [] (\<lambda>k. False)\<lparr>ListenerClose := Some (Err ''close'')\<rparr>" s0]
  by (simp add: mock_env_def)

subsection \<open>What the polling loops do\<close>

text \<open>
  Claim C8. Each attempt of either loop is a dial of \<open>tcp\<close> at the local port with a
  timeout of 1 ms. The port-free loop closes the connection and sleeps 50 ms after each
  dial that succeeds and leaves at the first dial that fails, whatever the number \<open>k\<close> of
  dials before it; when every dial succeeds it never ends. The port-listening loop
  sleeps 50 ms after each dial that fails and leaves, closing the connection, at the
  first dial that succeeds, whatever the number \<open>k\<close> of dials before it; when every dial
  fails it never ends.
\<close>

theorem polling_until_condition:
  "((\<forall>j<k. dialOk e lp (ndials s + j)) \<and> \<not> dialOk e lp (ndials s + k) \<longrightarrow>
      waitPortFree e lp s =
        Some (s\<lparr>ndials := ndials s + k + 1,
                trace := trace s @ concat (replicate k [dialEv lp, EvConnClose, EvSleep 50])
                           @ [dialEv lp]\<rparr>))
   \<and> ((\<forall>j. dialOk e lp (ndials s + j)) \<longrightarrow> waitPortFree e lp s = None)
   \<and> ((\<forall>j<k. \<not> dialOk e lp (ndials s + j)) \<and> dialOk e lp (ndials s + k) \<longrightarrow>
      waitPortListening e lp s =
        Some (s\<lparr>ndials := ndials s + k + 1,
                trace := trace s @ concat (replicate k [dialEv lp, EvSleep 50])
                           @ [dialEv lp, EvConnClose]\<rparr>))
   \<and> ((\<forall>j. \<not> dialOk e lp (ndials s + j)) \<longrightarrow> waitPortListening e lp s = None)"
  using waitPortFree_exit [of k e lp s] waitPortFree_blocks [of e lp s]
    waitPortListening_exit [of k e lp s] waitPortListening_blocks [of e lp s]
  by blast

theorem polling_until_condition_witness:
  "waitPortFree (mock_env [] [] (\<lambda>k. k < 2)) ''40123'' s0 =
     Some \<lparr>ndials = 3,
           trace = [EvDialTimeout ''tcp'' '':40123'' 1, EvConnClose, EvSleep 50,
                    EvDialTimeout ''tcp'' '':40123'' 1, EvConnClose, EvSleep 50,
                    EvDialTimeout ''tcp'' '':40123'' 1]\<rparr>
   \<and> waitPortFree (mock_env [] [] (\<lambda>k. True)) ''40123'' s0 = None
   \<and> waitPortListening (mock_env [] [] (\<lambda>k. 2 \<le> k)) ''40123'' s0 =
     Some \<lparr>ndials = 3,
           trace = [EvDialTimeout ''tcp'' '':40123'' 1, EvSleep 50,
                    EvDialTimeout ''tcp'' '':40123'' 1, EvSleep 50,
                    EvDialTimeout ''tcp'' '':40123'' 1, EvConnClose]\<rparr>
   \<and> waitPortListening (mock_env [] [] (\<lambda>k. False)) ''40123'' s0 = None"
  using polling_until_condition [of "Suc (Suc 0)" "mock_env [] [] (\<lambda>k. k < 2)" "''40123''" s0]
    polling_until_condition [of 0 "mock_env [] [] (\<lambda>k. True)" "''40123''" s0]
    polling_until_condition [of "Suc (Suc 0)" "mock_env [] [] (\<lambda>k. 2 \<le> k)" "''40123''" s0]
    polling_until_condition [of 0 "mock_env [] [] (\<lambda>k. False)" "''40123''" s0]
  by (simp add: dialOk_def dialEv_def mock_env_def s0_def JoinHostPort_def less_Suc_eq)

subsection \<open>What \<open>Setup\<close> returns\<close>

lemma findFreePort_NoneD:
  assumes "findFreePort e s = ((port, None), s')"
  shows "\<exists>p. Listen e ''tcp'' '':0'' = Inr p \<and> port = Itoa p
           \<and> s' = s\<lparr>trace := trace s @ [EvListen ''tcp'' '':0'', EvListenerClose]\<rparr>"
  using assms
  by (auto simp: findFreePort_def emit_def Let_def split: sum.splits option.splits)

lemma Setup_InrD:
  assumes "Setup e kubeConfig namespace labelSelector s = Some (Inr port, s')"
  shows "\<exists>s1 s2. findFreePort e s = ((port, None), s1)
           \<and> waitPortFree e port s1 = Some s2
           \<and> waitPortListening e port (emit (EvGo kubeConfig labelSelector port namespace) s2) = Some s'"
  using assms
  by (auto simp: Setup_def Let_def split: prod.splits option.splits)

lemma mock_dialOk: "dialOk (mock_env pods svcs dial) lp k = dial k"
  by (simp add: dialOk_def mock_env_def)

lemma mock_Setup:
  "Setup (mock_env [] [] (\<lambda>k. k = 0 \<or> k = 4)) ''kubeconfig'' ''ns1'' ''app=ctrl'' s0
     = Some (Inr ''40123'',
         \<lparr>ndials = 5,
          trace = [EvListen ''tcp'' '':0'', EvListenerClose,
                   EvDialTimeout ''tcp'' '':40123'' 1, EvConnClose, EvSleep 50,
                   EvDialTimeout ''tcp'' '':40123'' 1,
                   EvGo ''kubeconfig'' ''app=ctrl'' ''40123'' ''ns1'',
                   EvDialTimeout ''tcp'' '':40123'' 1, EvSleep 50,
                   EvDialTimeout ''tcp'' '':40123'' 1, EvSleep 50,
                   EvDialTimeout ''tcp'' '':40123'' 1, EvConnClose]\<rparr>)"
proof -
  let ?e = "mock_env [] [] (\<lambda>k. k = 0 \<or> k = 4)"
  let ?s1 = "\<lparr>ndials = 0, trace = [EvListen ''tcp'' '':0'', EvListenerClose]\<rparr>"
  let ?s2 = "\<lparr>ndials = 2, trace = [EvListen ''tcp'' '':0'', EvListenerClose,
                   EvDialTimeout ''tcp'' '':40123'' 1, EvConnClose, EvSleep 50,
                   EvDialTimeout ''tcp'' '':40123'' 1]\<rparr>"
  let ?s3 = "\<lparr>ndials = 2, trace = [EvListen ''tcp'' '':0'', EvListenerClose,
                   EvDialTimeout ''tcp'' '':40123'' 1, EvConnClose, EvSleep 50,
                   EvDialTimeout ''tcp'' '':40123'' 1,
                   EvGo ''kubeconfig'' ''app=ctrl'' ''40123'' ''ns1'']\<rparr>"
  have f: "findFreePort ?e s0 = ((''40123'', None), ?s1)"
    by (simp add: mock_findFreePort s0_def)
  have w1: "waitPortFree ?e ''40123'' ?s1 = Some ?s2"
    using waitPortFree_exit [of "Suc 0" ?e "''40123''" ?s1]
    by (simp add: mock_dialOk dialEv_def JoinHostPort_def)
  have w2: "waitPortListening ?e ''40123'' ?s3 = Some
         \<lparr>ndials = 5,
          trace = [EvListen ''tcp'' '':0'', EvListenerClose,
                   EvDialTimeout ''tcp'' '':40123'' 1, EvConnClose, EvSleep 50,
                   EvDialTimeout ''tcp'' '':40123'' 1,
                   EvGo ''kubeconfig'' ''app=ctrl'' ''40123'' ''ns1'',
                   EvDialTimeout ''tcp'' '':40123'' 1, EvSleep 50,
                   EvDialTimeout ''tcp'' '':40123'' 1, EvSleep 50,
                   EvDialTimeout ''tcp'' '':40123'' 1, EvConnClose]\<rparr>"
    using waitPortListening_exit [of "Suc (Suc 0)" ?e "''40123''" ?s3]
    by (simp add: mock_dialOk dialEv_def JoinHostPort_def less_Suc_eq)
  show ?thesis
    using f w1 w2 by (simp add: Setup_def emit_def)
qed

text \<open>
  \<open>Setup\<close> does return when the listener is bound and closed, some dial fails (the port
  is free) and some later dial succeeds.
\<close>

lemma Setup_returns:
  assumes bind: "Listen e ''tcp'' '':0'' = Inr p" and close: "ListenerClose e = None"
    and busy: "\<forall>j<k. dialOk e (Itoa p) (ndials s + j)"
    and free: "\<not> dialOk e (Itoa p) (ndials s + k)"
    and down: "\<forall>j<m. \<not> dialOk e (Itoa p) (ndials s + k + 1 + j)"
    and up: "dialOk e (Itoa p) (ndials s + k + 1 + m)"
  shows "\<exists>s'. Setup e kubeConfig namespace labelSelector s = Some (Inr (Itoa p), s')"
proof -
  let ?s1 = "s\<lparr>trace := trace s @ [EvListen ''tcp'' '':0'', EvListenerClose]\<rparr>"
  have f: "findFreePort e s = ((Itoa p, None), ?s1)"
    using bind close by (simp add: findFreePort_def emit_def)
  have busy1: "\<forall>j<k. dialOk e (Itoa p) (ndials ?s1 + j)" using busy by simp
  have free1: "\<not> dialOk e (Itoa p) (ndials ?s1 + k)" using free by simp
  obtain s2 where w1: "waitPortFree e (Itoa p) ?s1 = Some s2" and n2: "ndials s2 = ndials s + k + 1"
    using waitPortFree_exit [OF busy1 free1] by simp
  let ?s3 = "emit (EvGo kubeConfig labelSelector (Itoa p) namespace) s2"
  have down3: "\<forall>j<m. \<not> dialOk e (Itoa p) (ndials ?s3 + j)" using down n2 by (simp add: emit_def)
  have up3: "dialOk e (Itoa p) (ndials ?s3 + m)" using up n2 by (simp add: emit_def)
  obtain s4 where w2: "waitPortListening e (Itoa p) ?s3 = Some s4"
    using waitPortListening_exit [OF down3 up3] by simp
  show ?thesis
    using f w1 w2 by (simp add: Setup_def)
qed

text \<open>
  Claim C3. Whenever \<open>Setup\<close> returns, the string returned is the port of the
  listener that \<open>findFreePort\<close> bound, in decimal. After the background task was
  started, \<open>Setup\<close> did nothing but dial that port and sleep: each of the \<open>m\<close> dials
  before the last failed, the last dial succeeded, and \<open>Setup\<close> returned right after
  closing that connection. The dial cannot tell which socket answered; a connection
  is what the code takes for the tunnel being ready.
\<close>

theorem Setup_returns_after_connect:
  assumes "Setup e kubeConfig namespace labelSelector s = Some (Inr port, s')"
  shows "\<exists>p k m. Listen e ''tcp'' '':0'' = Inr p \<and> port = Itoa p
           \<and> trace s' = trace s @ [EvListen ''tcp'' '':0'', EvListenerClose]
                 @ concat (replicate k [dialEv port, EvConnClose, EvSleep 50]) @ [dialEv port]
                 @ [EvGo kubeConfig labelSelector port namespace]
                 @ concat (replicate m [dialEv port, EvSleep 50]) @ [dialEv port, EvConnClose]
           \<and> ndials s' = ndials s + k + m + 2
           \<and> (\<forall>j<m. \<not> dialOk e port (ndials s + k + 1 + j))
           \<and> dialOk e port (ndials s + k + 1 + m)"
proof -
  from Setup_InrD [OF assms] obtain s1 s2 where
    ffp: "findFreePort e s = ((port, None), s1)"
    and w1: "waitPortFree e port s1 = Some s2"
    and w2: "waitPortListening e port (emit (EvGo kubeConfig labelSelector port namespace) s2) = Some s'"
    by blast
  from findFreePort_NoneD [OF ffp] obtain p where
    p: "Listen e ''tcp'' '':0'' = Inr p" "port = Itoa p"
    and s1: "s1 = s\<lparr>trace := trace s @ [EvListen ''tcp'' '':0'', EvListenerClose]\<rparr>"
    by blast
  from waitPortFree_SomeD [OF w1] obtain k where
    s2: "s2 = s1\<lparr>ndials := ndials s1 + k + 1,
                  trace := trace s1 @ concat (replicate k [dialEv port, EvConnClose, EvSleep 50])
                             @ [dialEv port]\<rparr>"
    by blast
  let ?s3 = "emit (EvGo kubeConfig labelSelector port namespace) s2"
  from waitPortListening_SomeD [OF w2] obtain m where
    fails: "\<forall>j<m. \<not> dialOk e port (ndials ?s3 + j)"
    and ok: "dialOk e port (ndials ?s3 + m)"
    and s': "s' = ?s3\<lparr>ndials := ndials ?s3 + m + 1,
                  trace := trace ?s3 @ concat (replicate m [dialEv port, EvSleep 50])
                             @ [dialEv port, EvConnClose]\<rparr>"
    by blast
  have n3: "ndials ?s3 = ndials s + k + 1"
    by (simp add: emit_def s2 s1)
  have t3: "trace ?s3 = trace s @ [EvListen ''tcp'' '':0'', EvListenerClose]
                 @ concat (replicate k [dialEv port, EvConnClose, EvSleep 50]) @ [dialEv port]
                 @ [EvGo kubeConfig labelSelector port namespace]"
    by (simp add: emit_def s2 s1)
  have "trace s' = trace ?s3 @ concat (replicate m [dialEv port, EvSleep 50]) @ [dialEv port, EvConnClose]"
    by (subst s') simp
  with t3 have tr: "trace s' = trace s @ [EvListen ''tcp'' '':0'', EvListenerClose]
                 @ concat (replicate k [dialEv port, EvConnClose, EvSleep 50]) @ [dialEv port]
                 @ [EvGo kubeConfig labelSelector port namespace]
                 @ concat (replicate m [dialEv port, EvSleep 50]) @ [dialEv port, EvConnClose]"
    by simp
  have "ndials s' = ndials ?s3 + m + 1"
    by (subst s') simp
  with n3 have nd: "ndials s' = ndials s + k + m + 2" by simp
  from fails ok n3 have "\<forall>j<m. \<not> dialOk e port (ndials s + k + 1 + j)"
    and "dialOk e port (ndials s + k + 1 + m)" by simp_all
  with p tr nd show ?thesis by blast
qed


theorem Setup_returns_after_connect_witness:
  "Setup (mock_env [] [] (\<lambda>k. k = 0 \<or> k = 4)) ''kubeconfig'' ''ns1'' ''app=ctrl'' s0
     = Some (Inr ''40123'',
         \<lparr>ndials = 5,
          trace = [EvListen ''tcp'' '':0'', EvListenerClose,
                   EvDialTimeout ''tcp'' '':40123'' 1, EvConnClose, EvSleep 50,
                   EvDialTimeout ''tcp'' '':40123'' 1,
                   EvGo ''kubeconfig'' ''app=ctrl'' ''40123'' ''ns1'',
                   EvDialTimeout ''tcp'' '':40123'' 1, EvSleep 50,
                   EvDialTimeout ''tcp'' '':40123'' 1, EvSleep 50,
                   EvDialTimeout ''tcp'' '':40123'' 1, EvConnClose]\<rparr>)
   \<and> (\<exists>p k m. Listen (mock_env [] [] (\<lambda>k. k = 0 \<or> k = 4)) ''tcp'' '':0'' = Inr p
         \<and> ''40123'' = Itoa p \<and> 5 = ndials s0 + k + m + 2
         \<and> dialOk (mock_env [] [] (\<lambda>k. k = 0 \<or> k = 4)) ''40123'' (ndials s0 + k + 1 + m))"
  using Setup_returns_after_connect [OF mock_Setup] mock_Setup
  by simp blast

subsection \<open>The two loops of \<open>runPortForward\<close>\<close>

lemma foldl_snoc_map: "foldl (\<lambda>acc x. acc @ [f x]) acc xs = acc @ map f xs"
  by (induction xs arbitrary: acc) simp_all

lemma namespaces_of_map: "namespaces_of Items = map Namespace Items"
  by (simp add: namespaces_of_def foldl_snoc_map)

lemma foldl_assign_last: "foldl (\<lambda>acc x. f x) acc xs = (if xs = [] then acc else f (last xs))"
  by (induction xs arbitrary: acc) simp_all

lemma targetPort_of_last:
  "targetPort_of service =
     (if Ports service = [] then '''' else String (TargetPort (last (Ports service))))"
  by (simp add: targetPort_of_def foldl_assign_last)

subsection \<open>Looking up the pod\<close>

text \<open>
  Claim C5. Once the client is built, \<open>runPortForward\<close> lists pods exactly once, with
  the label selector it was given: in \<open>NamespaceAll\<close>, the namespace argument that
  stands for every namespace, when the namespace string is empty, and in the given
  namespace otherwise.
\<close>

theorem pod_list_namespace:
  assumes "BuildConfigFromFlags e '''' kubeConfig = Inr config"
    and "NewForConfig e config = Inr clientset"
  shows "\<exists>rest. snd (runPortForward e kubeConfig labelSelector localPort ns t0)
           = t0 @ [EvBuildConfigFromFlags '''' kubeConfig, EvNewForConfig,
                   EvPodsList (if ns = '''' then NamespaceAll else ns) labelSelector] @ rest
         \<and> (\<forall>n l. EvPodsList n l \<notin> set rest)"
  using assms
  by (auto simp: runPortForward_def Let_def split: sum.splits option.splits)

theorem pod_list_namespace_witness:
  "(\<exists>rest. snd (runPortForward
        (mock_env [\<lparr>Name = ''ctrl-a'', Namespace = ''ns1''\<rparr>, \<lparr>Name = ''ctrl-b'', Namespace = ''ns2''\<rparr>]
           [] (\<lambda>k. False))
        ''kubeconfig'' ''app=ctrl'' ''40123'' '''' [])
      = [EvBuildConfigFromFlags '''' ''kubeconfig'', EvNewForConfig,
         EvPodsList NamespaceAll ''app=ctrl''] @ rest)
   \<and> (\<exists>rest. snd (runPortForward
        (mock_env [\<lparr>Name = ''ctrl-a'', Namespace = ''ns1''\<rparr>, \<lparr>Name = ''ctrl-b'', Namespace = ''ns2''\<rparr>]
           [] (\<lambda>k. False))
        ''kubeconfig'' ''app=ctrl'' ''40123'' ''ns2'' [])
      = [EvBuildConfigFromFlags '''' ''kubeconfig'', EvNewForConfig,
         EvPodsList ''ns2'' ''app=ctrl''] @ rest)"
  using
    pod_list_namespace [where e = "mock_env [\<lparr>Name = ''ctrl-a'', Namespace = ''ns1''\<rparr>, \<lparr>Name = ''ctrl-b'', Namespace = ''ns2''\<rparr>]
         [] (\<lambda>k. False)"
      and kubeConfig = "''kubeconfig''" and config = "()" and clientset = "()"
      and labelSelector = "''app=ctrl''" and localPort = "''40123''" and ?t0.0 = "[]"
      and ns = "''''"]
    pod_list_namespace [where e = "mock_env [\<lparr>Name = ''ctrl-a'', Namespace = ''ns1''\<rparr>, \<lparr>Name = ''ctrl-b'', Namespace = ''ns2''\<rparr>]
         [] (\<lambda>k. False)"
      and kubeConfig = "''kubeconfig''" and config = "()" and clientset = "()"
      and labelSelector = "''app=ctrl''" and localPort = "''40123''" and ?t0.0 = "[]"
      and ns = "''ns2''"]
  by (simp add: mock_env_def) blast

text \<open>
  Claim C1. Let \<open>r\<close> be the answer to the pod list call. When \<open>r\<close> is an error or an
  empty list, \<open>runPortForward\<close> ends the process with the message "Error getting
  controller pod for port-forwarding". When \<open>r\<close> holds more than one pod, it ends the
  process with a message that gives the number of pods and the namespace of every pod
  of the list, joined by spaces. In both cases the pod list call is the last call made:
  no service is looked up and no tunnel is started. The function returns, or makes any
  call after the pod list call, only when \<open>r\<close> holds exactly one pod.
\<close>

theorem pod_lookup_outcomes:
  assumes "BuildConfigFromFlags e '''' kubeConfig = Inr config"
    and "NewForConfig e config = Inr clientset"
    and "PodsList e clientset (if ns = '''' then NamespaceAll else ns) labelSelector = r"
    and "t3 = t0 @ [EvBuildConfigFromFlags '''' kubeConfig, EvNewForConfig,
                    EvPodsList (if ns = '''' then NamespaceAll else ns) labelSelector]"
  shows "((\<exists>err. r = Inl err) \<or> r = Inr [] \<longrightarrow>
            runPortForward e kubeConfig labelSelector localPort ns t0
              = (Inl (Fatal ''Error getting controller pod for port-forwarding''), t3))
       \<and> (\<forall>Items. r = Inr Items \<and> 1 < length Items \<longrightarrow>
            runPortForward e kubeConfig labelSelector localPort ns t0
              = (Inl (Fatal (''Found '' @ Itoa (int (length Items))
                   @ '' fission installs, set FISSION_NAMESPACE to one of: ''
                   @ Join (map Namespace Items) '' '')), t3))
       \<and> ((\<exists>x. fst (runPortForward e kubeConfig labelSelector localPort ns t0) = Inr x)
            \<or> snd (runPortForward e kubeConfig labelSelector localPort ns t0) \<noteq> t3
          \<longrightarrow> (\<exists>p. r = Inr [p]))"
proof (intro conjI impI allI)
  assume "(\<exists>err. r = Inl err) \<or> r = Inr []"
  with assms show "runPortForward e kubeConfig labelSelector localPort ns t0
              = (Inl (Fatal ''Error getting controller pod for port-forwarding''), t3)"
    by (auto simp: runPortForward_def)
next
  fix Items assume many: "r = Inr Items \<and> 1 < length Items"
  then have "Items \<noteq> []" by auto
  with many assms show "runPortForward e kubeConfig labelSelector localPort ns t0
              = (Inl (Fatal (''Found '' @ Itoa (int (length Items))
                   @ '' fission installs, set FISSION_NAMESPACE to one of: ''
                   @ Join (map Namespace Items) '' '')), t3)"
    by (auto simp: runPortForward_def Let_def namespaces_of_map)
next
  assume cont: "(\<exists>x. fst (runPortForward e kubeConfig labelSelector localPort ns t0) = Inr x)
            \<or> snd (runPortForward e kubeConfig labelSelector localPort ns t0) \<noteq> t3"
  show "\<exists>p. r = Inr [p]"
  proof (cases r)
    case (Inl err)
    with assms cont show ?thesis by (auto simp: runPortForward_def)
  next
    case (Inr Items)
    show ?thesis
    proof (cases "length Items = 1")
      case True
      then obtain p where "Items = [p]" by (cases Items) auto
      with Inr show ?thesis by simp
    next
      case False
      then have "Items = [] \<or> (Items \<noteq> [] \<and> 1 < length Items)" by (cases Items) auto
      with assms cont Inr show ?thesis by (auto simp: runPortForward_def Let_def)
    qed
  qed
qed

theorem pod_lookup_outcomes_witness:
  "runPortForward
     (mock_env [\<lparr>Name = ''ctrl-a'', Namespace = ''ns1''\<rparr>, \<lparr>Name = ''ctrl-b'', Namespace = ''ns2''\<rparr>]
        [] (\<lambda>k. False))
     ''kubeconfig'' ''app=ctrl'' ''40123'' '''' []
   = (Inl (Fatal ''Found 2 fission installs, set FISSION_NAMESPACE to one of: ns1 ns2''),
      [EvBuildConfigFromFlags '''' ''kubeconfig'', EvNewForConfig, EvPodsList '''' ''app=ctrl''])
   \<and> runPortForward (mock_env [] [] (\<lambda>k. False)) ''kubeconfig'' ''app=ctrl'' ''40123'' '''' []
   = (Inl (Fatal ''Error getting controller pod for port-forwarding''),
      [EvBuildConfigFromFlags '''' ''kubeconfig'', EvNewForConfig, EvPodsList '''' ''app=ctrl''])
   \<and> runPortForward
       (mock_env [] [] (\<lambda>k. False)\<lparr>PodsList := (\<lambda>clientset ns sel. Inl (Err ''timeout''))\<rparr>)
       ''kubeconfig'' ''app=ctrl'' ''40123'' '''' []
   = (Inl (Fatal ''Error getting controller pod for port-forwarding''),
      [EvBuildConfigFromFlags '''' ''kubeconfig'', EvNewForConfig, EvPodsList '''' ''app=ctrl''])"
  using
    pod_lookup_outcomes [where e = "mock_env [\<lparr>Name = ''ctrl-a'', Namespace = ''ns1''\<rparr>, \<lparr>Name = ''ctrl-b'', Namespace = ''ns2''\<rparr>]
         [] (\<lambda>k. False)"
      and kubeConfig = "''kubeconfig''" and config = "()" and clientset = "()"
      and labelSelector = "''app=ctrl''" and localPort = "''40123''" and ?t0.0 = "[]"
      and ns = "''''", OF _ _ refl refl]
    pod_lookup_outcomes [where e = "mock_env [] [] (\<lambda>k. False)"
      and kubeConfig = "''kubeconfig''" and config = "()" and clientset = "()"
      and labelSelector = "''app=ctrl''" and localPort = "''40123''" and ?t0.0 = "[]"
      and ns = "''''", OF _ _ refl refl]
    pod_lookup_outcomes [where e = "mock_env [] [] (\<lambda>k. False)\<lparr>PodsList := (\<lambda>clientset ns sel. Inl (Err ''timeout''))\<rparr>"
      and kubeConfig = "''kubeconfig''" and config = "()" and clientset = "()"
      and labelSelector = "''app=ctrl''" and localPort = "''40123''" and ?t0.0 = "[]"
      and ns = "''''", OF _ _ refl refl]
  by (simp add: mock_env_def NamespaceAll_def Itoa_def digits.simps)

text \<open>
  Claim C10. When the pod list holds more than one pod, the list of namespaces in the
  message has one entry for each pod of the list, in the order of the list: its
  \<open>i\<close>-th entry is the namespace of the \<open>i\<close>-th pod. Nothing removes duplicates, so a
  namespace that holds several of the pods appears once for each of them.
\<close>

theorem ambiguity_message_namespaces:
  assumes "BuildConfigFromFlags e '''' kubeConfig = Inr config"
    and "NewForConfig e config = Inr clientset"
    and "PodsList e clientset (if ns = '''' then NamespaceAll else ns) labelSelector = Inr Items"
    and "1 < length Items"
  shows "fst (runPortForward e kubeConfig labelSelector localPort ns t0)
           = Inl (Fatal (''Found '' @ Itoa (int (length Items))
               @ '' fission installs, set FISSION_NAMESPACE to one of: ''
               @ Join (namespaces_of Items) '' ''))
       \<and> length (namespaces_of Items) = length Items
       \<and> (\<forall>i<length Items. namespaces_of Items ! i = Namespace (Items ! i))"
proof -
  from assms(4) have "Items \<noteq> []" by auto
  with assms show ?thesis
    by (auto simp: runPortForward_def Let_def namespaces_of_map)
qed

theorem ambiguity_message_namespaces_witness:
  "fst (runPortForward
     (mock_env [\<lparr>Name = ''ctrl-a'', Namespace = ''ns1''\<rparr>, \<lparr>Name = ''ctrl-b'', Namespace = ''ns1''\<rparr>,
                \<lparr>Name = ''ctrl-c'', Namespace = ''ns2''\<rparr>] [] (\<lambda>k. False))
     ''kubeconfig'' ''app=ctrl'' ''40123'' '''' [])
   = Inl (Fatal ''Found 3 fission installs, set FISSION_NAMESPACE to one of: ns1 ns1 ns2'')
   \<and> namespaces_of [\<lparr>Name = ''ctrl-a'', Namespace = ''ns1''\<rparr>, \<lparr>Name = ''ctrl-b'', Namespace = ''ns1''\<rparr>,
                \<lparr>Name = ''ctrl-c'', Namespace = ''ns2''\<rparr>] = [''ns1'', ''ns1'', ''ns2'']"
  using ambiguity_message_namespaces
    [where e = "mock_env [\<lparr>Name = ''ctrl-a'', Namespace = ''ns1''\<rparr>, \<lparr>Name = ''ctrl-b'', Namespace = ''ns1''\<rparr>,
                \<lparr>Name = ''ctrl-c'', Namespace = ''ns2''\<rparr>] [] (\<lambda>k. False)"
      and kubeConfig = "''kubeconfig''" and config = "()" and clientset = "()" and ns = "''''"
      and labelSelector = "''app=ctrl''"
      and Items = "[\<lparr>Name = ''ctrl-a'', Namespace = ''ns1''\<rparr>, \<lparr>Name = ''ctrl-b'', Namespace = ''ns1''\<rparr>,
                \<lparr>Name = ''ctrl-c'', Namespace = ''ns2''\<rparr>]"
      and localPort = "''40123''" and ?t0.0 = "[]"]
  by (simp add: mock_env_def NamespaceAll_def namespaces_of_def Itoa_def digits.simps)

subsection \<open>Looking up the service and the target port\<close>

text \<open>
  Claim C4. When the pod list holds exactly one pod \<open>p\<close>, services are listed exactly
  once, with the same label selector and in the namespace of \<open>p\<close>, whatever the
  namespace string given by the caller. When that call gives an error, or an empty list,
  \<open>runPortForward\<close> ends the process and the service list call is the last call made.
\<close>

theorem service_lookup:
  assumes "BuildConfigFromFlags e '''' kubeConfig = Inr config"
    and "NewForConfig e config = Inr clientset"
    and "PodsList e clientset (if ns = '''' then NamespaceAll else ns) labelSelector = Inr [p]"
    and "t4 = t0 @ [EvBuildConfigFromFlags '''' kubeConfig, EvNewForConfig,
                    EvPodsList (if ns = '''' then NamespaceAll else ns) labelSelector,
                    EvServicesList (Namespace p) labelSelector]"
  shows "(\<exists>rest. snd (runPortForward e kubeConfig labelSelector localPort ns t0) = t4 @ rest
            \<and> (\<forall>n l. EvServicesList n l \<notin> set rest))
       \<and> (\<forall>err. ServicesList e clientset (Namespace p) labelSelector = Inl err \<longrightarrow>
            runPortForward e kubeConfig labelSelector localPort ns t0
              = (Inl (Fatal (''Error getting '' @ labelSelector @ '' service :'' @ Error err)), t4))
       \<and> (ServicesList e clientset (Namespace p) labelSelector = Inr [] \<longrightarrow>
            runPortForward e kubeConfig labelSelector localPort ns t0
              = (Inl (Fatal (''Service '' @ labelSelector @ '' not found'')), t4))"
  using assms
  by (auto simp: runPortForward_def Let_def split: sum.splits option.splits)

theorem service_lookup_witness:
  "runPortForward (mock_env [\<lparr>Name = ''ctrl-a'', Namespace = ''ns1''\<rparr>] [] (\<lambda>k. False))
     ''kubeconfig'' ''app=ctrl'' ''40123'' '''' []
   = (Inl (Fatal ''Service app=ctrl not found''),
      [EvBuildConfigFromFlags '''' ''kubeconfig'', EvNewForConfig, EvPodsList '''' ''app=ctrl'',
       EvServicesList ''ns1'' ''app=ctrl''])
   \<and> runPortForward
       (mock_env [\<lparr>Name = ''ctrl-a'', Namespace = ''ns1''\<rparr>] [] (\<lambda>k. False)
          \<lparr>ServicesList := (\<lambda>clientset ns sel. Inl (Err ''timeout''))\<rparr>)
       ''kubeconfig'' ''app=ctrl'' ''40123'' '''' []
   = (Inl (Fatal ''Error getting app=ctrl service :timeout''),
      [EvBuildConfigFromFlags '''' ''kubeconfig'', EvNewForConfig, EvPodsList '''' ''app=ctrl'',
       EvServicesList ''ns1'' ''app=ctrl''])"
  using
    service_lookup [where e = "mock_env [\<lparr>Name = ''ctrl-a'', Namespace = ''ns1''\<rparr>] [] (\<lambda>k. False)"
      and kubeConfig = "''kubeconfig''" and config = "()" and clientset = "()"
      and labelSelector = "''app=ctrl''" and localPort = "''40123''" and ?t0.0 = "[]"
      and ns = "''''" and p = "\<lparr>Name = ''ctrl-a'', Namespace = ''ns1''\<rparr>", OF _ _ _ refl]
    service_lookup [where e = "mock_env [\<lparr>Name = ''ctrl-a'', Namespace = ''ns1''\<rparr>] [] (\<lambda>k. False)
          \<lparr>ServicesList := (\<lambda>clientset ns sel. Inl (Err ''timeout''))\<rparr>"
      and kubeConfig = "''kubeconfig''" and config = "()" and clientset = "()"
      and labelSelector = "''app=ctrl''" and localPort = "''40123''" and ?t0.0 = "[]"
      and ns = "''''" and p = "\<lparr>Name = ''ctrl-a'', Namespace = ''ns1''\<rparr>", OF _ _ _ refl]
  by (simp add: mock_env_def NamespaceAll_def)

text \<open>
  Claim C2, as stated, fails: the loop of lines 155 to 157 assigns the variable at every
  port, so the last port of the service decides. Here the service declares the target
  ports 80 and 8080, in this order, and the tunnel is asked to forward to 8080.
\<close>

theorem first_port_counterexample:
  "runPortForward
     (mock_env [\<lparr>Name = ''ctrl-a'', Namespace = ''ns1''\<rparr>]
        [\<lparr>Ports = [\<lparr>TargetPort = FromInt 80\<rparr>, \<lparr>TargetPort = FromInt 8080\<rparr>]\<rparr>] (\<lambda>k. False))
     ''kubeconfig'' ''app=ctrl'' ''40123'' ''ns1'' []
   = (Inr None,
      [EvBuildConfigFromFlags '''' ''kubeconfig'', EvNewForConfig, EvPodsList ''ns1'' ''app=ctrl'',
       EvServicesList ''ns1'' ''app=ctrl'', EvRoundTripperFor,
       EvNewDialer ''POST'' \<lparr>Resource = ''pods'', ReqNamespace = ''ns1'', ReqName = ''ctrl-a'',
                               SubResource = ''portforward''\<rparr>,
       EvPortforwardNew [''40123:8080''] False, EvForwardPorts])
   \<and> String (TargetPort (hd (Ports
         \<lparr>Ports = [\<lparr>TargetPort = FromInt 80\<rparr>, \<lparr>TargetPort = FromInt 8080\<rparr>]\<rparr>))) = ''80''"
  by (simp add: runPortForward_def mock_env_def Let_def NamespaceAll_def targetPort_of_def
        Itoa_def digits.simps)

text \<open>
  Claim C2, amended. With exactly one matching pod and a matching service, once the
  transport is set up the destination port handed to the port forwarder is the
  target-port value of the last port that the first service declares, and the empty
  string when that service declares no port.
\<close>

theorem tunnel_destination_is_last_port:
  assumes "BuildConfigFromFlags e '''' kubeConfig = Inr config"
    and "NewForConfig e config = Inr clientset"
    and "PodsList e clientset (if ns = '''' then NamespaceAll else ns) labelSelector = Inr [p]"
    and "ServicesList e clientset (Namespace p) labelSelector = Inr (service # others)"
    and "RoundTripperFor e config = None"
  shows "\<exists>rest. snd (runPortForward e kubeConfig labelSelector localPort ns t0)
           = t0 @ [EvBuildConfigFromFlags '''' kubeConfig, EvNewForConfig,
                   EvPodsList (if ns = '''' then NamespaceAll else ns) labelSelector,
                   EvServicesList (Namespace p) labelSelector, EvRoundTripperFor,
                   EvNewDialer ''POST'' \<lparr>Resource = ''pods'', ReqNamespace = Namespace p,
                                           ReqName = Name p, SubResource = ''portforward''\<rparr>,
                   EvPortforwardNew
                     [localPort @ '':'' @
                        (if Ports service = [] then ''''
                         else String (TargetPort (last (Ports service))))]
                     (\<not> Verbosity e < 2)] @ rest"
  using assms
  by (auto simp: runPortForward_def Let_def targetPort_of_last split: option.splits)

theorem tunnel_destination_is_last_port_witness:
  "\<exists>rest. snd (runPortForward
       (mock_env [\<lparr>Name = ''ctrl-a'', Namespace = ''ns1''\<rparr>]
          [\<lparr>Ports = [\<lparr>TargetPort = FromInt 80\<rparr>, \<lparr>TargetPort = FromInt 8080\<rparr>]\<rparr>] (\<lambda>k. False))
       ''kubeconfig'' ''app=ctrl'' ''40123'' ''ns1'' [])
     = [EvBuildConfigFromFlags '''' ''kubeconfig'', EvNewForConfig, EvPodsList ''ns1'' ''app=ctrl'',
        EvServicesList ''ns1'' ''app=ctrl'', EvRoundTripperFor,
        EvNewDialer ''POST'' \<lparr>Resource = ''pods'', ReqNamespace = ''ns1'', ReqName = ''ctrl-a'',
                                SubResource = ''portforward''\<rparr>,
        EvPortforwardNew [''40123:8080''] False] @ rest"
  using tunnel_destination_is_last_port
    [where e = "mock_env [\<lparr>Name = ''ctrl-a'', Namespace = ''ns1''\<rparr>]
          [\<lparr>Ports = [\<lparr>TargetPort = FromInt 80\<rparr>, \<lparr>TargetPort = FromInt 8080\<rparr>]\<rparr>] (\<lambda>k. False)"
      and kubeConfig = "''kubeconfig''" and config = "()" and clientset = "()" and ns = "''ns1''"
      and labelSelector = "''app=ctrl''" and p = "\<lparr>Name = ''ctrl-a'', Namespace = ''ns1''\<rparr>"
      and service = "\<lparr>Ports = [\<lparr>TargetPort = FromInt 80\<rparr>, \<lparr>TargetPort = FromInt 8080\<rparr>]\<rparr>"
      and others = "[]" and localPort = "''40123''" and ?t0.0 = "[]"]
  by (simp add: mock_env_def NamespaceAll_def Itoa_def digits.simps)

text \<open>
  Claim C9. When the first service declares no port, nothing fails in the lookup: the
  target port is the empty string and \<open>runPortForward\<close> goes on to set up the
  transport. When that succeeds, the port forwarder is created with the single mapping
  made of the local port, a colon and nothing after it, and what happens next is up to
  the port forwarder alone.
\<close>

theorem no_ports_not_rejected:
  assumes "BuildConfigFromFlags e '''' kubeConfig = Inr config"
    and "NewForConfig e config = Inr clientset"
    and "PodsList e clientset (if ns = '''' then NamespaceAll else ns) labelSelector = Inr [p]"
    and "ServicesList e clientset (Namespace p) labelSelector = Inr (service # others)"
    and "Ports service = []"
    and "url = \<lparr>Resource = ''pods'', ReqNamespace = Namespace p, ReqName = Name p,
                 SubResource = ''portforward''\<rparr>"
    and "t5 = t0 @ [EvBuildConfigFromFlags '''' kubeConfig, EvNewForConfig,
                    EvPodsList (if ns = '''' then NamespaceAll else ns) labelSelector,
                    EvServicesList (Namespace p) labelSelector, EvRoundTripperFor]"
  shows "targetPort_of service = ''''
       \<and> (\<exists>rest. snd (runPortForward e kubeConfig labelSelector localPort ns t0) = t5 @ rest)
       \<and> (RoundTripperFor e config = None \<longrightarrow>
            runPortForward e kubeConfig labelSelector localPort ns t0
              = (case PortforwardNew e url [localPort @ '':''] of
                   Some err \<Rightarrow>
                     (Inl (Fatal (''portforward.new errored out :'' @ Error err)),
                      t5 @ [EvNewDialer ''POST'' url,
                            EvPortforwardNew [localPort @ '':''] (\<not> Verbosity e < 2)])
                 | None \<Rightarrow>
                     (Inr (ForwardPorts e url [localPort @ '':'']),
                      t5 @ [EvNewDialer ''POST'' url,
                            EvPortforwardNew [localPort @ '':''] (\<not> Verbosity e < 2),
                            EvForwardPorts])))"
  using assms
  by (auto simp: runPortForward_def Let_def targetPort_of_def split: option.splits)

theorem no_ports_not_rejected_witness:
  "runPortForward
     (mock_env [\<lparr>Name = ''ctrl-a'', Namespace = ''ns1''\<rparr>] [\<lparr>Ports = []\<rparr>] (\<lambda>k. False))
     ''kubeconfig'' ''app=ctrl'' ''40123'' ''ns1'' []
   = (Inr None,
      [EvBuildConfigFromFlags '''' ''kubeconfig'', EvNewForConfig, EvPodsList ''ns1'' ''app=ctrl'',
       EvServicesList ''ns1'' ''app=ctrl'', EvRoundTripperFor,
       EvNewDialer ''POST'' \<lparr>Resource = ''pods'', ReqNamespace = ''ns1'', ReqName = ''ctrl-a'',
                               SubResource = ''portforward''\<rparr>,
       EvPortforwardNew [''40123:''] False, EvForwardPorts])"
  using no_ports_not_rejected
    [where e = "mock_env [\<lparr>Name = ''ctrl-a'', Namespace = ''ns1''\<rparr>] [\<lparr>Ports = []\<rparr>] (\<lambda>k. False)"
      and kubeConfig = "''kubeconfig''" and config = "()" and clientset = "()" and ns = "''ns1''"
      and labelSelector = "''app=ctrl''" and p = "\<lparr>Name = ''ctrl-a'', Namespace = ''ns1''\<rparr>"
      and service = "\<lparr>Ports = []\<rparr>" and others = "[]" and localPort = "''40123''"
      and ?t0.0 = "[]", OF _ _ _ _ _ refl refl]
  by (simp add: mock_env_def NamespaceAll_def)

end
